theory Spec2Isabelle
  imports Main "HOL-Library.Multiset"
begin

section \<open>Data model\<close>

text \<open>
  A task document as \<^verbatim>\<open>models/taskModel.js\<close> declares it and as the client receives it
  in JSON. \<open>task_id\<close> is the field \<^verbatim>\<open>_id\<close>; an ObjectId is kept abstract as a natural
  number. Dates are milliseconds since the epoch; \<open>dueDate\<close> is \<open>None\<close> for \<^verbatim>\<open>null\<close>.
  A string is the sequence of the UTF-8 bytes of the JavaScript string.
\<close>

type_synonym oid = nat

record task =
  task_id :: oid
  title :: string
  description :: string
  status :: string
  dueDate :: "int option"
  createdAt :: int

section \<open>Store: the Mongoose model of \<^verbatim>\<open>models/taskModel.js\<close>\<close>

text \<open>
  A request body (\<^verbatim>\<open>req.body\<close>) as the handler receives it from \<^verbatim>\<open>express.json()\<close>,
  restricted to the schema's paths; Mongoose's strict mode drops every other key. A field
  is \<open>None\<close> when the key is absent. A present \<^verbatim>\<open>title\<close>, \<^verbatim>\<open>description\<close> or
  \<^verbatim>\<open>status\<close> is a string; a present \<^verbatim>\<open>createdAt\<close> is a number of milliseconds, a
  present \<^verbatim>\<open>dueDate\<close> such a number or \<^verbatim>\<open>null\<close> (\<open>Some None\<close>); a date string
  stands for the number it denotes. The number need not be a time that \<^verbatim>\<open>Date\<close> can
  hold.
\<close>

record body =
  b_id :: "oid option"
  b_title :: "string option"
  b_description :: "string option"
  b_status :: "string option"
  b_dueDate :: "int option option"
  b_createdAt :: "int option"

text \<open>
  The errors thrown inside the \<^verbatim>\<open>try\<close> blocks of the handlers. The handlers read only
  \<^verbatim>\<open>error.message\<close>; the error value stands for its message. \<open>ValidationError\<close> holds
  the set of the failing paths: the order in which the message lists them is left out.
  \<open>SyntaxError\<close> is the error of \<^verbatim>\<open>new RegExp\<close> on an invalid pattern.
\<close>

datatype thrown =
    ValidationError "string set"
  | CastError
  | ImmutableField
  | DuplicateKey
  | Unavailable string
  | SyntaxError

text \<open>
  The collection, in insertion order, and the state of the connection: when \<open>fault\<close> is
  \<open>Some m\<close> every database call rejects with an error of message \<open>m\<close>.
\<close>

record db =
  docs :: "task list"
  fault :: "string option"

text \<open>
  \<^verbatim>\<open>req.params.id\<close> is a string of the URL: either it casts to an ObjectId or the
  cast throws.
\<close>

datatype param = Castable oid | Uncastable string

definition statusEnum :: "string list" where
  "statusEnum = [''Pending'', ''In Progress'', ''Completed'']"

text \<open>
  \<^verbatim>\<open>trim: true\<close> is a setter that calls \<^verbatim>\<open>String.prototype.trim\<close>, which strips the
  white space and line terminators of ECMAScript at both ends. \<open>white_space\<close> lists them
  in UTF-8: U+0009 to U+000D, U+0020, U+00A0, U+1680, U+2000 to U+200A, U+2028, U+2029,
  U+202F, U+205F, U+3000 and U+FEFF.
\<close>

definition white_space :: "string list" where
  "white_space =
     [[CHR 0x09], [CHR 0x0A], [CHR 0x0B], [CHR 0x0C], [CHR 0x0D], [CHR 0x20],
      [CHR 0xC2, CHR 0xA0],
      [CHR 0xE1, CHR 0x9A, CHR 0x80],
      [CHR 0xE2, CHR 0x80, CHR 0x80], [CHR 0xE2, CHR 0x80, CHR 0x81],
      [CHR 0xE2, CHR 0x80, CHR 0x82], [CHR 0xE2, CHR 0x80, CHR 0x83],
      [CHR 0xE2, CHR 0x80, CHR 0x84], [CHR 0xE2, CHR 0x80, CHR 0x85],
      [CHR 0xE2, CHR 0x80, CHR 0x86], [CHR 0xE2, CHR 0x80, CHR 0x87],
      [CHR 0xE2, CHR 0x80, CHR 0x88], [CHR 0xE2, CHR 0x80, CHR 0x89],
      [CHR 0xE2, CHR 0x80, CHR 0x8A],
      [CHR 0xE2, CHR 0x80, CHR 0xA8], [CHR 0xE2, CHR 0x80, CHR 0xA9],
      [CHR 0xE2, CHR 0x80, CHR 0xAF],
      [CHR 0xE2, CHR 0x81, CHR 0x9F],
      [CHR 0xE3, CHR 0x80, CHR 0x80],
      [CHR 0xEF, CHR 0xBB, CHR 0xBF]]"

text \<open>The member of \<open>ws\<close> that the string starts with, if any.\<close>

definition leading :: "string list \<Rightarrow> string \<Rightarrow> string option" where
  "leading ws s = find (\<lambda>w. w \<noteq> [] \<and> take (length w) s = w) ws"

function strip_start :: "string list \<Rightarrow> string \<Rightarrow> string" where
  "strip_start ws s =
     (case leading ws s of
        None \<Rightarrow> s
      | Some w \<Rightarrow> strip_start ws (drop (length w) s))"
  by pat_completeness auto
termination
proof (relation "measure (\<lambda>(ws, s). length s)")
  show "wf (measure (\<lambda>(ws, s). length s))" by simp
next
  fix ws :: "string list" and s w :: string
  assume "leading ws s = Some w"
  then have "w \<noteq> []" and "take (length w) s = w"
    by (auto simp: leading_def find_Some_iff)
  then have "0 < length w" and "length w \<le> length s"
    by (auto simp: min_def dest: arg_cong [where f = length] split: if_splits)
  then show "((ws, drop (length w) s), (ws, s)) \<in> measure (\<lambda>(ws, s). length s)"
    by (cases w) auto
qed

text \<open>
  The end is stripped on the reversed string with the reversed encodings; no encoding
  ends another character of a UTF-8 string.
\<close>

definition trim :: "string \<Rightarrow> string" where
  "trim s = rev (strip_start (map rev white_space) (rev (strip_start white_space s)))"

text \<open>
  The cast of a number to a \<^verbatim>\<open>Date\<close> fails outside the range of times, which is
  8.64e15 milliseconds on either side of the epoch.
\<close>

definition date_ok :: "int \<Rightarrow> bool" where
  "date_ok ms = (- 8640000000000000 \<le> ms \<and> ms \<le> 8640000000000000)"

text \<open>
  \<^verbatim>\<open>new Task(req.body)\<close>: the defaults fill the paths that the body leaves undefined,
  the \<^verbatim>\<open>_id\<close> among them (\<open>gen\<close> is the fresh ObjectId, \<open>now\<close> is \<^verbatim>\<open>Date.now()\<close>),
  the values are cast and the setters run. A date path whose value does not cast is
  recorded in \<open>d_invalid\<close>. The required paths may still be undefined.
\<close>

record draft =
  d_id :: oid
  d_title :: "string option"
  d_description :: "string option"
  d_status :: string
  d_dueDate :: "int option"
  d_createdAt :: int
  d_invalid :: "string set"

definition new_Task :: "body \<Rightarrow> int \<Rightarrow> oid \<Rightarrow> draft" where
  "new_Task b now gen =
     \<lparr> d_id = (case b_id b of Some i \<Rightarrow> i | None \<Rightarrow> gen),
       d_title = map_option trim (b_title b),
       d_description = b_description b,
       d_status = (case b_status b of Some s \<Rightarrow> s | None \<Rightarrow> ''Pending''),
       d_dueDate = (case b_dueDate b of Some d \<Rightarrow> d | None \<Rightarrow> None),
       d_createdAt = (case b_createdAt b of Some c \<Rightarrow> c | None \<Rightarrow> now),
       d_invalid =
         (case b_dueDate b of
            Some (Some d) \<Rightarrow> if date_ok d then {} else {''dueDate''}
          | _ \<Rightarrow> {}) \<union>
         (if date_ok (case b_createdAt b of Some c \<Rightarrow> c | None \<Rightarrow> now) then {}
          else {''createdAt''}) \<rparr>"

text \<open>The \<^verbatim>\<open>required\<close> validator of a string path: defined and not empty.\<close>

definition required_string :: "string option \<Rightarrow> bool" where
  "required_string v = (case v of None \<Rightarrow> False | Some s \<Rightarrow> s \<noteq> [])"

text \<open>
  The paths that fail validation: those whose cast failed, a required string that is
  undefined or empty, a status outside the enumeration.
\<close>

definition validate :: "draft \<Rightarrow> string set" where
  "validate d =
     d_invalid d \<union>
     (if required_string (d_title d) then {} else {''title''}) \<union>
     (if required_string (d_description d) then {} else {''description''}) \<union>
     (if d_status d \<in> set statusEnum then {} else {''status''})"

text \<open>
  \<^verbatim>\<open>newTask.save()\<close>: validation first, then the insert, which the unique index on
  \<^verbatim>\<open>_id\<close> refuses for an id already in the collection.
\<close>

definition save :: "draft \<Rightarrow> db \<Rightarrow> thrown + (task \<times> db)" where
  "save d s =
     (if validate d \<noteq> {} then Inl (ValidationError (validate d))
      else
        (case (d_title d, d_description d) of
           (Some t, Some ds) \<Rightarrow>
             (case fault s of
                Some m \<Rightarrow> Inl (Unavailable m)
              | None \<Rightarrow>
                  if d_id d \<in> task_id ` set (docs s) then Inl DuplicateKey
                  else
                    (let doc = \<lparr> task_id = d_id d, title = t, description = ds,
                                  status = d_status d, dueDate = d_dueDate d,
                                  createdAt = d_createdAt d \<rparr>
                     in Inr (doc, s\<lparr>docs := docs s @ [doc]\<rparr>)))
         | _ \<Rightarrow> Inl (ValidationError (validate d))))"

definition findById :: "param \<Rightarrow> db \<Rightarrow> thrown + task option" where
  "findById p s =
     (case p of
        Uncastable _ \<Rightarrow> Inl CastError
      | Castable i \<Rightarrow>
          (case fault s of
             Some m \<Rightarrow> Inl (Unavailable m)
           | None \<Rightarrow> Inr (find (\<lambda>t. task_id t = i) (docs s))))"

text \<open>
  The update is cast before anything else: a date that does not cast makes the call
  throw a \<open>CastError\<close>.
\<close>

definition cast_update_ok :: "body \<Rightarrow> bool" where
  "cast_update_ok b =
     ((case b_dueDate b of Some (Some d) \<Rightarrow> date_ok d | _ \<Rightarrow> True) \<and>
      (case b_createdAt b of Some c \<Rightarrow> date_ok c | None \<Rightarrow> True))"

text \<open>
  The update validators (\<^verbatim>\<open>runValidators: true\<close>) check the paths the update sets,
  after the setters, and before the database is called.
\<close>

definition validate_update :: "body \<Rightarrow> string set" where
  "validate_update b =
     (case b_title b of None \<Rightarrow> {} | Some t \<Rightarrow> if trim t \<noteq> [] then {} else {''title''}) \<union>
     (case b_description b of None \<Rightarrow> {} | Some d \<Rightarrow> if d \<noteq> [] then {} else {''description''}) \<union>
     (case b_status b of None \<Rightarrow> {} | Some s \<Rightarrow> if s \<in> set statusEnum then {} else {''status''})"

text \<open>
  The update as the database applies it: the paths of the body replace those of the
  record. It is reached only for a body that has been cast and validated.
\<close>

definition apply_update :: "body \<Rightarrow> task \<Rightarrow> task" where
  "apply_update b t =
     t\<lparr> title := (case b_title b of Some x \<Rightarrow> trim x | None \<Rightarrow> title t),
        description := (case b_description b of Some x \<Rightarrow> x | None \<Rightarrow> description t),
        status := (case b_status b of Some x \<Rightarrow> x | None \<Rightarrow> status t),
        dueDate := (case b_dueDate b of Some x \<Rightarrow> x | None \<Rightarrow> dueDate t),
        createdAt := (case b_createdAt b of Some x \<Rightarrow> x | None \<Rightarrow> createdAt t) \<rparr>"

fun update_first :: "oid \<Rightarrow> task \<Rightarrow> task list \<Rightarrow> task list" where
  "update_first i t' [] = []"
| "update_first i t' (t # ts) = (if task_id t = i then t' # ts else t # update_first i t' ts)"

fun delete_first :: "oid \<Rightarrow> task list \<Rightarrow> task list" where
  "delete_first i [] = []"
| "delete_first i (t # ts) = (if task_id t = i then ts else t # delete_first i ts)"

text \<open>
  \<^verbatim>\<open>Task.findByIdAndUpdate(id, body, {new: true, runValidators: true})\<close>. The database
  refuses an update that would change \<^verbatim>\<open>_id\<close>.
\<close>

definition findByIdAndUpdate :: "param \<Rightarrow> body \<Rightarrow> db \<Rightarrow> thrown + (task option \<times> db)" where
  "findByIdAndUpdate p b s =
     (case p of
        Uncastable _ \<Rightarrow> Inl CastError
      | Castable i \<Rightarrow>
          if \<not> cast_update_ok b then Inl CastError
          else if validate_update b \<noteq> {} then Inl (ValidationError (validate_update b))
          else
            (case fault s of
               Some m \<Rightarrow> Inl (Unavailable m)
             | None \<Rightarrow>
                 (case find (\<lambda>t. task_id t = i) (docs s) of
                    None \<Rightarrow> Inr (None, s)
                  | Some t \<Rightarrow>
                      if b_id b \<noteq> None \<and> b_id b \<noteq> Some i then Inl ImmutableField
                      else
                        (let t' = apply_update b t
                         in Inr (Some t', s\<lparr>docs := update_first i t' (docs s)\<rparr>)))))"

definition findByIdAndDelete :: "param \<Rightarrow> db \<Rightarrow> thrown + (task option \<times> db)" where
  "findByIdAndDelete p s =
     (case p of
        Uncastable _ \<Rightarrow> Inl CastError
      | Castable i \<Rightarrow>
          (case fault s of
             Some m \<Rightarrow> Inl (Unavailable m)
           | None \<Rightarrow>
               (case find (\<lambda>t. task_id t = i) (docs s) of
                  None \<Rightarrow> Inr (None, s)
                | Some t \<Rightarrow> Inr (Some t, s\<lparr>docs := delete_first i (docs s)\<rparr>))))"

subsection \<open>Regular expressions of the status filter\<close>

text \<open>
  \<^verbatim>\<open>new RegExp(`^${status}$`, 'i')\<close> interprets the query string as a pattern. The
  model covers the patterns \<^verbatim>\<open>^\<close>\<open>a\<^sub>1 \<dots> a\<^sub>n\<close>\<^verbatim>\<open>$\<close> whose atoms are a dot or an ASCII
  character that is not a syntax character, and two kinds of pattern on which
  \<^verbatim>\<open>new RegExp\<close> throws a \<open>SyntaxError\<close>: a quantifier right after \<^verbatim>\<open>^\<close>, and
  parentheses that do not match among atoms and parentheses only. \<open>RegExp_i\<close> is \<open>None\<close>
  on every other pattern. The flag \<^verbatim>\<open>i\<close> folds the ASCII letters. A dot matches every
  character but a line terminator. The subjects are stored statuses, which validation
  keeps within the enumeration.
\<close>

datatype rx_atom = Lit char | Dot

definition syntax_char :: "char \<Rightarrow> bool" where
  "syntax_char c = (c = CHR 0x5C \<or> c \<in> set ''^$.*+?()[]{}|'')"

definition plain_char :: "char \<Rightarrow> bool" where
  "plain_char c = (of_char c < (128::nat) \<and> \<not> syntax_char c)"

fun rx_atoms :: "string \<Rightarrow> rx_atom list option" where
  "rx_atoms [] = Some []"
| "rx_atoms (c # cs) =
     (if c = CHR ''.'' then map_option (Cons Dot) (rx_atoms cs)
      else if plain_char c then map_option (Cons (Lit c)) (rx_atoms cs)
      else None)"

fun balanced :: "nat \<Rightarrow> string \<Rightarrow> bool" where
  "balanced n [] = (n = 0)"
| "balanced n (c # cs) =
     (if c = CHR ''('' then balanced (Suc n) cs
      else if c = CHR '')'' then 0 < n \<and> balanced (n - 1) cs
      else balanced n cs)"

definition rx_source :: "string \<Rightarrow> (thrown + rx_atom list) option" where
  "rx_source src =
     (case rx_atoms src of
        Some atoms \<Rightarrow> Some (Inr atoms)
      | None \<Rightarrow>
          if src \<noteq> [] \<and> hd src \<in> set ''*+?'' then Some (Inl SyntaxError)
          else if list_all (\<lambda>c. c = CHR ''.'' \<or> plain_char c \<or> c = CHR ''('' \<or> c = CHR '')'') src
                  \<and> \<not> balanced 0 src
          then Some (Inl SyntaxError)
          else None)"

definition RegExp_i :: "string \<Rightarrow> (thrown + rx_atom list) option" where
  "RegExp_i p =
     (case p of
        [] \<Rightarrow> None
      | c # cs \<Rightarrow>
          if c = CHR ''^'' \<and> cs \<noteq> [] \<and> last cs = CHR ''$'' then rx_source (butlast cs)
          else None)"

definition canonicalize :: "char \<Rightarrow> char" where
  "canonicalize c =
     (if (97::nat) \<le> of_char c \<and> of_char c \<le> (122::nat)
      then char_of (of_char c - (32::nat)) else c)"

fun atom_match :: "rx_atom \<Rightarrow> char \<Rightarrow> bool" where
  "atom_match (Lit p) c = (canonicalize p = canonicalize c)"
| "atom_match Dot c = (c \<noteq> CHR 0x0A \<and> c \<noteq> CHR 0x0D)"

fun rx_match :: "rx_atom list \<Rightarrow> string \<Rightarrow> bool" where
  "rx_match [] [] = True"
| "rx_match (a # as) (c # cs) = (atom_match a c \<and> rx_match as cs)"
| "rx_match _ _ = False"

text \<open>
  \<^verbatim>\<open>.sort({ createdAt: -1 })\<close>: descending by \<^verbatim>\<open>createdAt\<close>; documents of equal
  \<^verbatim>\<open>createdAt\<close> keep their stored order.
\<close>

definition sort_createdAt_desc :: "task list \<Rightarrow> task list" where
  "sort_createdAt_desc ts = sort_key (\<lambda>t. - createdAt t) ts"

text \<open>
  \<^verbatim>\<open>Task.find(filter).sort({ createdAt: -1 })\<close>: the filter is empty (\<open>None\<close>) or
  holds the regular expression for \<^verbatim>\<open>status\<close>.
\<close>

definition find_sorted :: "rx_atom list option \<Rightarrow> db \<Rightarrow> thrown + task list" where
  "find_sorted flt s =
     (case fault s of
        Some m \<Rightarrow> Inl (Unavailable m)
      | None \<Rightarrow>
          Inr (sort_createdAt_desc
                 (filter (\<lambda>t. case flt of None \<Rightarrow> True | Some rx \<Rightarrow> rx_match rx (status t))
                    (docs s))))"

section \<open>Service: \<^verbatim>\<open>routes/taskRoutes.js\<close>\<close>

text \<open>
  A response is \<^verbatim>\<open>res.status(code)\<close> with its body: the array of tasks, one task,
  the object \<^verbatim>\<open>{ message, error }\<close> (\<^verbatim>\<open>error\<close> absent in the 404 bodies), or nothing.
\<close>

datatype payload =
    Tasks "task list"
  | OneTask task
  | Failure string "thrown option"
  | NoContent

datatype response = Response nat payload

text \<open>
  The filter that \<^verbatim>\<open>getAllTasks\<close> builds from \<^verbatim>\<open>req.query.status\<close>. An empty string
  is falsy, so it sets no filter. \<open>Inl\<close> is the error that \<^verbatim>\<open>new RegExp\<close> throws;
  \<open>None\<close> is a pattern outside the modelled fragment of regular expressions.
\<close>

definition status_filter :: "string option \<Rightarrow> (thrown + rx_atom list option) option" where
  "status_filter q =
     (case q of
        None \<Rightarrow> Some (Inr None)
      | Some st \<Rightarrow>
          if st \<noteq> []
          then (case RegExp_i (''^'' @ st @ ''$'') of
                  None \<Rightarrow> None
                | Some (Inl e) \<Rightarrow> Some (Inl e)
                | Some (Inr rx) \<Rightarrow> Some (Inr (Some rx)))
          else Some (Inr None))"

text \<open>
  \<^verbatim>\<open>getAllTasks\<close>: the filter is built and the query run inside the \<^verbatim>\<open>try\<close> block,
  whose \<^verbatim>\<open>catch\<close> answers 500. The result is \<open>None\<close> where the pattern is outside the
  modelled fragment.
\<close>

definition getAllTasks :: "string option \<Rightarrow> db \<Rightarrow> response option" where
  "getAllTasks q s =
     (case status_filter q of
        None \<Rightarrow> None
      | Some (Inl e) \<Rightarrow> Some (Response 500 (Failure ''Failed to fetch tasks'' (Some e)))
      | Some (Inr f) \<Rightarrow>
          Some (case find_sorted f s of
                  Inr ts \<Rightarrow> Response 200 (Tasks ts)
                | Inl e \<Rightarrow> Response 500 (Failure ''Failed to fetch tasks'' (Some e))))"

text \<open>\<^verbatim>\<open>createTask\<close>; every error of the \<^verbatim>\<open>try\<close> block is answered with 400.\<close>

definition createTask :: "body \<Rightarrow> int \<Rightarrow> oid \<Rightarrow> db \<Rightarrow> response \<times> db" where
  "createTask b now gen s =
     (case save (new_Task b now gen) s of
        Inr (savedTask, s') \<Rightarrow> (Response 201 (OneTask savedTask), s')
      | Inl e \<Rightarrow> (Response 400 (Failure ''Failed to create task'' (Some e)), s))"

definition getTaskById :: "param \<Rightarrow> db \<Rightarrow> response" where
  "getTaskById p s =
     (case findById p s of
        Inr None \<Rightarrow> Response 404 (Failure ''Task not found'' None)
      | Inr (Some t) \<Rightarrow> Response 200 (OneTask t)
      | Inl e \<Rightarrow> Response 500 (Failure ''Failed to retrieve task'' (Some e)))"

definition updateTask :: "param \<Rightarrow> body \<Rightarrow> db \<Rightarrow> response \<times> db" where
  "updateTask p b s =
     (case findByIdAndUpdate p b s of
        Inr (None, s') \<Rightarrow> (Response 404 (Failure ''Task not found'' None), s')
      | Inr (Some updatedTask, s') \<Rightarrow> (Response 200 (OneTask updatedTask), s')
      | Inl e \<Rightarrow> (Response 400 (Failure ''Failed to update task'' (Some e)), s))"

definition deleteTask :: "param \<Rightarrow> db \<Rightarrow> response \<times> db" where
  "deleteTask p s =
     (case findByIdAndDelete p s of
        Inr (None, s') \<Rightarrow> (Response 404 (Failure ''Task not found'' None), s')
      | Inr (Some deletedTask, s') \<Rightarrow> (Response 204 NoContent, s')
      | Inl e \<Rightarrow> (Response 500 (Failure ''Failed to delete task'' (Some e)), s))"

section \<open>Client: \<^verbatim>\<open>App.jsx\<close>\<close>

subsection \<open>TaskItem: the status cycle\<close>

text \<open>
  \<^verbatim>\<open>nextStatus\<close> is a switch over the string \<^verbatim>\<open>task.status\<close> with a default branch.
\<close>

definition nextStatus :: "string \<Rightarrow> string" where
  "nextStatus s =
     (if s = ''Pending'' then ''In Progress''
      else if s = ''In Progress'' then ''Completed''
      else if s = ''Completed'' then ''Pending''
      else ''Pending'')"


subsection \<open>App: state and replies\<close>

text \<open>
  The state variables of \<^verbatim>\<open>App\<close> that the data operations read or write. The
  notification is the pair of message and type; the timer that clears it is left out.
\<close>

record app =
  tasks :: "task list"
  loading :: bool
  error :: "string option"
  filterStatus :: string
  refreshTrigger :: nat
  notification :: "(string \<times> string) option"

text \<open>
  What \<^verbatim>\<open>await fetch(...)\<close> gives: a rejection with \<^verbatim>\<open>e.message\<close>, or a response, of
  which the code reads \<^verbatim>\<open>status\<close>, \<^verbatim>\<open>json()\<close> and \<^verbatim>\<open>text()\<close>. \<open>Inl m\<close> in the two
  body readers is a rejection with message \<open>m\<close>. The type parameter is the shape in which
  the caller reads the parsed body.
\<close>

record 'a reply =
  http_status :: nat
  json :: "string + 'a"
  body_text :: "string + string"

datatype 'a fetched = Rejected string | Arrived "'a reply"

definition ok :: "'a reply \<Rightarrow> bool" where
  "ok r = (200 \<le> http_status r \<and> http_status r \<le> 299)"

text \<open>The error body as the client reads it: its \<^verbatim>\<open>message\<close> field, if any.\<close>

type_synonym errorData = "string option"

definition or_else :: "string option \<Rightarrow> string \<Rightarrow> string" where
  "or_else v d = (case v of Some s \<Rightarrow> if s \<noteq> [] then s else d | None \<Rightarrow> d)"

fun show_nat :: "nat \<Rightarrow> string" where
  "show_nat n =
     (if n < 10 then [char_of (48 + n)]
      else show_nat (n div 10) @ [char_of (48 + n mod 10)])"

definition showNotification :: "string \<Rightarrow> string \<Rightarrow> app \<Rightarrow> app" where
  "showNotification msg type st = st\<lparr>notification := Some (msg, type)\<rparr>"

subsection \<open>App: fetching the list\<close>

text \<open>
  The status parameter of the URL that \<^verbatim>\<open>fetchTasks\<close> requests, as the service
  decodes it.
\<close>

definition fetch_query :: "app \<Rightarrow> string option" where
  "fetch_query st = (if filterStatus st \<noteq> ''All'' then Some (filterStatus st) else None)"

definition fetchTasks_try :: "task list fetched \<Rightarrow> string + task list" where
  "fetchTasks_try res =
     (case res of
        Rejected m \<Rightarrow> Inl m
      | Arrived response \<Rightarrow>
          if \<not> ok response
          then Inl (''HTTP error! status: '' @ show_nat (http_status response))
          else json response)"

definition App_fetchTasks :: "task list fetched \<Rightarrow> app \<Rightarrow> app" where
  "App_fetchTasks res st =
     (let st1 = st\<lparr>loading := True, error := None\<rparr>
      in case fetchTasks_try res of
           Inr data \<Rightarrow> st1\<lparr>tasks := data, loading := False\<rparr>
         | Inl m \<Rightarrow>
             st1\<lparr>error := Some (''Failed to load tasks from MERN backend. '' @
                                 ''Is Express server running on port 5000? Error: '' @ m),
                 loading := False\<rparr>)"

text \<open>
  The effect that runs \<^verbatim>\<open>fetchTasks\<close> has the dependencies \<^verbatim>\<open>filterStatus\<close> and
  \<^verbatim>\<open>refreshTrigger\<close>: it runs again after a render in which one of them has changed.
\<close>

definition refetch_scheduled :: "app \<Rightarrow> app \<Rightarrow> bool" where
  "refetch_scheduled st st' =
     (filterStatus st' \<noteq> filterStatus st \<or> refreshTrigger st' \<noteq> refreshTrigger st)"

subsection \<open>App: create, update, delete\<close>

record taskData =
  td_title :: string
  td_description :: string
  td_dueDate :: "int option"

text \<open>\<^verbatim>\<open>JSON.stringify(taskData)\<close> as the service reads it.\<close>

definition create_body :: "taskData \<Rightarrow> body" where
  "create_body d =
     \<lparr> b_id = None, b_title = Some (td_title d), b_description = Some (td_description d),
       b_status = None, b_dueDate = Some (td_dueDate d), b_createdAt = None \<rparr>"

definition send_try :: "errorData fetched \<Rightarrow> string \<Rightarrow> string + unit" where
  "send_try res dflt =
     (case res of
        Rejected m \<Rightarrow> Inl m
      | Arrived response \<Rightarrow>
          if \<not> ok response
          then (case json response of
                  Inl m \<Rightarrow> Inl m
                | Inr errorData \<Rightarrow> Inl (or_else errorData dflt))
          else Inr ())"

definition App_createTask :: "taskData \<Rightarrow> errorData fetched \<Rightarrow> app \<Rightarrow> app" where
  "App_createTask d res st =
     (let st1 = st\<lparr>loading := True, error := None\<rparr>
      in case send_try res ''Failed to create task.'' of
           Inr _ \<Rightarrow>
             (showNotification
                (''Task '' @ [CHR 0x22] @ td_title d @ [CHR 0x22] @ '' created successfully!'')
                ''success''
                (st1\<lparr>refreshTrigger := refreshTrigger st1 + 1\<rparr>))
             \<lparr>loading := False\<rparr>
         | Inl m \<Rightarrow>
             (showNotification ''Error creating task. Check console.'' ''error''
                (st1\<lparr>error := Some (''Failed to create task. '' @ m)\<rparr>))
             \<lparr>loading := False\<rparr>)"

text \<open>The body of the PUT request: \<^verbatim>\<open>JSON.stringify({ status: newStatus })\<close>.\<close>

definition status_body :: "string \<Rightarrow> body" where
  "status_body newStatus =
     \<lparr> b_id = None, b_title = None, b_description = None,
       b_status = Some newStatus, b_dueDate = None, b_createdAt = None \<rparr>"

text \<open>The updater given to \<^verbatim>\<open>setTasks\<close> in the optimistic step.\<close>

definition optimistic :: "oid \<Rightarrow> string \<Rightarrow> task list \<Rightarrow> task list" where
  "optimistic i newStatus prevTasks =
     map (\<lambda>t. if task_id t = i then t\<lparr>status := newStatus\<rparr> else t) prevTasks"

text \<open>
  \<^verbatim>\<open>updateTaskStatus\<close>. \<open>tempOriginalTasks\<close> is the value of \<^verbatim>\<open>tasks\<close> in the closure
  of the callback, which \<^verbatim>\<open>useCallback\<close> rebuilds whenever \<^verbatim>\<open>tasks\<close> changes; the
  updater of the optimistic step runs on the state as it is.
\<close>

definition App_updateTaskStatus ::
    "task list \<Rightarrow> oid \<Rightarrow> string \<Rightarrow> errorData fetched \<Rightarrow> app \<Rightarrow> app" where
  "App_updateTaskStatus tempOriginalTasks i newStatus res st =
     (let st1 = st\<lparr>error := None\<rparr>;
          st2 = st1\<lparr>tasks := optimistic i newStatus (tasks st1)\<rparr>
      in case send_try res ''Failed to update task status.'' of
           Inr _ \<Rightarrow>
             showNotification
               (''Status updated to '' @ [CHR 0x22] @ newStatus @ [CHR 0x22] @ ''!'') ''info'' st2
         | Inl m \<Rightarrow>
             (let st3 = showNotification ''Error updating status. Reverting change.'' ''error''
                          (st2\<lparr>error := Some (''Failed to update task status. '' @ m)\<rparr>);
                  st4 = st3\<lparr>tasks := tempOriginalTasks\<rparr>
              in st4\<lparr>refreshTrigger := refreshTrigger st4 + 1\<rparr>))"

definition delete_try :: "unit fetched \<Rightarrow> string + unit" where
  "delete_try res =
     (case res of
        Rejected m \<Rightarrow> Inl m
      | Arrived response \<Rightarrow>
          if http_status response \<noteq> 204 \<and> http_status response \<noteq> 404
          then (case body_text response of
                  Inl m \<Rightarrow> Inl m
                | Inr errorText \<Rightarrow> Inl (or_else (Some errorText) ''Failed to delete task.''))
          else Inr ())"

definition App_deleteTask :: "oid \<Rightarrow> unit fetched \<Rightarrow> app \<Rightarrow> app" where
  "App_deleteTask i res st =
     (let st1 = st\<lparr>loading := True, error := None\<rparr>
      in case delete_try res of
           Inr _ \<Rightarrow>
             (showNotification ''Task deleted successfully.'' ''error''
                (st1\<lparr>refreshTrigger := refreshTrigger st1 + 1\<rparr>))
             \<lparr>loading := False\<rparr>
         | Inl m \<Rightarrow>
             (showNotification ''Error deleting task. Check console.'' ''error''
                (st1\<lparr>error := Some (''Failed to delete task. '' @ m)\<rparr>))
             \<lparr>loading := False\<rparr>)"

section \<open>Notions of the specification and sample data\<close>

text \<open>Two strings are equal up to the case of their ASCII letters.\<close>

definition ci_equal :: "string \<Rightarrow> string \<Rightarrow> bool" where
  "ci_equal a b = (map canonicalize a = map canonicalize b)"

text \<open>
  A request has failed for the client when \<^verbatim>\<open>fetch\<close> rejects or the response is not
  \<^verbatim>\<open>ok\<close>.
\<close>

definition request_failed :: "'a fetched \<Rightarrow> bool" where
  "request_failed res = (case res of Rejected _ \<Rightarrow> True | Arrived r \<Rightarrow> \<not> ok r)"

text \<open>A response with the given status whose body parses to the given value.\<close>

definition reply_of :: "nat \<Rightarrow> 'a \<Rightarrow> 'a reply" where
  "reply_of c v = \<lparr> http_status = c, json = Inr v, body_text = Inr [] \<rparr>"

definition t0 :: task where
  "t0 = \<lparr> task_id = 1, title = ''Write spec'', description = ''draft v1'',
          status = ''Pending'', dueDate = None, createdAt = 1000 \<rparr>"

definition t1 :: task where
  "t1 = \<lparr> task_id = 2, title = ''Review'', description = ''second'',
          status = ''Completed'', dueDate = Some 5000, createdAt = 2000 \<rparr>"

definition db0 :: db where
  "db0 = \<lparr> docs = [t0, t1], fault = None \<rparr>"

definition app0 :: app where
  "app0 = \<lparr> tasks = [t1, t0], loading = False, error = None, filterStatus = ''All'',
            refreshTrigger = 0, notification = None \<rparr>"

text \<open>Request bodies and a store whose connection is lost.\<close>

definition b_done :: body where
  "b_done = \<lparr> b_id = None, b_title = Some ''a'', b_description = Some ''b'',
               b_status = Some ''Completed'', b_dueDate = None, b_createdAt = Some 5 \<rparr>"

definition b_plain :: body where
  "b_plain = create_body \<lparr> td_title = ''a'', td_description = ''b'', td_dueDate = None \<rparr>"

definition b_created :: body where
  "b_created = \<lparr> b_id = None, b_title = None, b_description = None,
                  b_status = None, b_dueDate = None, b_createdAt = Some 5 \<rparr>"

definition db_down :: db where
  "db_down = db0\<lparr>fault := Some ''connection lost''\<rparr>"

text \<open>The invariants of the data model on one record and on the store.\<close>

definition valid_task :: "task \<Rightarrow> bool" where
  "valid_task t = (title t \<noteq> [] \<and> description t \<noteq> [] \<and> status t \<in> set statusEnum)"

definition store_ok :: "db \<Rightarrow> bool" where
  "store_ok s = (distinct (map task_id (docs s)) \<and> list_all valid_task (docs s))"

section \<open>The status cycle\<close>

text \<open>
  C5. The advance function maps Pending to In Progress, In Progress to Completed and
  Completed to Pending, and applying it three times to any of the three statuses gives
  the status back.
\<close>

theorem nextStatus_cycle:
  "nextStatus ''Pending'' = ''In Progress'' \<and>
   nextStatus ''In Progress'' = ''Completed'' \<and>
   nextStatus ''Completed'' = ''Pending'' \<and>
   (\<forall>s \<in> {''Pending'', ''In Progress'', ''Completed''}.
      nextStatus (nextStatus (nextStatus s)) = s)"
  by (simp add: nextStatus_def)

theorem nextStatus_cycle_witness:
  "''In Progress'' \<in> {''Pending'', ''In Progress'', ''Completed''} \<and>
   nextStatus (nextStatus (nextStatus ''In Progress'')) = ''In Progress''"
  using nextStatus_cycle by simp

section \<open>The optimistic update\<close>

lemma send_try_failed: "request_failed res \<Longrightarrow> \<exists>m. send_try res d = Inl m"
  by (auto simp: request_failed_def send_try_def split: fetched.splits sum.splits)

lemma send_try_ok: "\<not> request_failed res \<Longrightarrow> send_try res d = Inr ()"
  by (auto simp: request_failed_def send_try_def split: fetched.splits sum.splits)

text \<open>
  C1. When the request of a status advance fails, the list after the rollback is the list
  the callback captured, which is the list before the optimistic step when the callback
  runs on the state it was rendered from: the whole list, not only the task advanced.
\<close>

theorem rollback_restores_list:
  "request_failed res \<Longrightarrow>
   tasks (App_updateTaskStatus (tasks st) i newStatus res st) = tasks st"
  using send_try_failed [of res "''Failed to update task status.''"]
  by (auto simp: App_updateTaskStatus_def showNotification_def Let_def)

theorem rollback_restores_list_witness:
  "request_failed (Rejected ''Failed to fetch'' :: errorData fetched) \<and>
   tasks (App_updateTaskStatus (tasks app0) 1 ''In Progress''
            (Rejected ''Failed to fetch'') app0) = [t1, t0]"
proof -
  have h: "request_failed (Rejected ''Failed to fetch'' :: errorData fetched)"
    by (simp add: request_failed_def)
  from rollback_restores_list [OF h, of app0 1 "''In Progress''"] h
  show ?thesis by (simp add: app0_def)
qed

lemma optimistic_nth:
  "k < length ts \<Longrightarrow>
   optimistic i s ts ! k = (if task_id (ts ! k) = i then (ts ! k)\<lparr>status := s\<rparr> else ts ! k)"
  by (simp add: optimistic_def)

lemma update_first_map:
  "find (\<lambda>x. task_id x = i) ts = Some t \<Longrightarrow> f t' = f t \<Longrightarrow>
   map f (update_first i t' ts) = map f ts"
  by (induction ts) (auto split: if_splits)

lemma update_first_other:
  "k < length ts \<Longrightarrow> task_id (ts ! k) \<noteq> i \<Longrightarrow> update_first i t' ts ! k = ts ! k"
proof (induction ts arbitrary: k)
  case Nil
  then show ?case by simp
next
  case (Cons a ts)
  then show ?case by (cases k) auto
qed

lemma find_task_id: "find (\<lambda>x. task_id x = i) ts = Some t \<Longrightarrow> task_id t = i"
  by (induction ts) (auto split: if_splits)

text \<open>What a 200 answer of \<^verbatim>\<open>updateTask\<close> says about the request and the store.\<close>

lemma updateTask_200:
  assumes "updateTask p b s = (Response 200 (OneTask t'), s')"
  shows "\<exists>i t. p = Castable i \<and> cast_update_ok b \<and> validate_update b = {} \<and>
           fault s = None \<and>
           find (\<lambda>x. task_id x = i) (docs s) = Some t \<and>
           (b_id b = None \<or> b_id b = Some i) \<and>
           t' = apply_update b t \<and> s' = s\<lparr>docs := update_first i t' (docs s)\<rparr>"
  using assms
  by (auto simp: updateTask_def findByIdAndUpdate_def Let_def
           split: param.splits option.splits if_splits sum.splits prod.splits)

text \<open>
  C10. The optimistic step keeps the length of the list, leaves every entry with another
  id as it is, and changes nothing but \<^verbatim>\<open>status\<close> in an entry with the id advanced;
  after a successful request the list is the one of the optimistic step. The request body
  holds \<^verbatim>\<open>status\<close> only, so an update the service answers with 200 leaves the id, title,
  description, due date and creation time of every stored record as they were, and every
  record with another id unchanged.
\<close>

theorem status_advance_frame:
  "length (optimistic i s ts) = length ts \<and>
   (\<forall>k < length ts.
      (task_id (ts ! k) \<noteq> i \<longrightarrow> optimistic i s ts ! k = ts ! k) \<and>
      (task_id (ts ! k) = i \<longrightarrow> optimistic i s ts ! k = (ts ! k)\<lparr>status := s\<rparr>)) \<and>
   (\<not> request_failed res \<longrightarrow>
      tasks (App_updateTaskStatus snap i s res st) = optimistic i s (tasks st)) \<and>
   (updateTask (Castable i) (status_body s) d = (Response 200 (OneTask t'), d') \<longrightarrow>
      map task_id (docs d') = map task_id (docs d) \<and>
      map title (docs d') = map title (docs d) \<and>
      map description (docs d') = map description (docs d) \<and>
      map dueDate (docs d') = map dueDate (docs d) \<and>
      map createdAt (docs d') = map createdAt (docs d) \<and>
      (\<forall>k < length (docs d). task_id (docs d ! k) \<noteq> i \<longrightarrow> docs d' ! k = docs d ! k) \<and>
      status t' = s)"
proof -
  have A: "length (optimistic i s ts) = length ts"
    by (simp add: optimistic_def)
  have B: "\<forall>k < length ts.
      (task_id (ts ! k) \<noteq> i \<longrightarrow> optimistic i s ts ! k = ts ! k) \<and>
      (task_id (ts ! k) = i \<longrightarrow> optimistic i s ts ! k = (ts ! k)\<lparr>status := s\<rparr>)"
    by (simp add: optimistic_nth)
  have C: "\<not> request_failed res \<longrightarrow>
      tasks (App_updateTaskStatus snap i s res st) = optimistic i s (tasks st)"
    using send_try_ok [of res "''Failed to update task status.''"]
    by (auto simp: App_updateTaskStatus_def showNotification_def Let_def)
  have D: "map task_id (docs d') = map task_id (docs d) \<and>
      map title (docs d') = map title (docs d) \<and>
      map description (docs d') = map description (docs d) \<and>
      map dueDate (docs d') = map dueDate (docs d) \<and>
      map createdAt (docs d') = map createdAt (docs d) \<and>
      (\<forall>k < length (docs d). task_id (docs d ! k) \<noteq> i \<longrightarrow> docs d' ! k = docs d ! k) \<and>
      status t' = s"
    if h: "updateTask (Castable i) (status_body s) d = (Response 200 (OneTask t'), d')"
  proof -
    from updateTask_200 [OF h] obtain t where
      f: "find (\<lambda>x. task_id x = i) (docs d) = Some t" and
      t': "t' = apply_update (status_body s) t" and
      d': "d' = d\<lparr>docs := update_first i t' (docs d)\<rparr>"
      by auto
    have t'': "t' = t\<lparr>status := s\<rparr>"
      by (simp add: t' apply_update_def status_body_def)
    show ?thesis
      using f by (simp add: d' t'' update_first_map update_first_other)
  qed
  from A B C D show ?thesis by blast
qed

theorem status_advance_frame_witness:
  "(0::nat) < length [t1, t0] \<and> task_id ([t1, t0] ! 0) \<noteq> 1 \<and>
   optimistic 1 ''In Progress'' [t1, t0] ! 0 = t1 \<and>
   (1::nat) < length [t1, t0] \<and> task_id ([t1, t0] ! 1) = 1 \<and>
   optimistic 1 ''In Progress'' [t1, t0] ! 1 = t0\<lparr>status := ''In Progress''\<rparr> \<and>
   \<not> request_failed (Arrived (reply_of 200 None) :: errorData fetched) \<and>
   tasks (App_updateTaskStatus (tasks app0) 1 ''In Progress'' (Arrived (reply_of 200 None)) app0)
     = [t1, t0\<lparr>status := ''In Progress''\<rparr>] \<and>
   updateTask (Castable 1) (status_body ''In Progress'') db0
     = (Response 200 (OneTask (t0\<lparr>status := ''In Progress''\<rparr>)),
        db0\<lparr>docs := [t0\<lparr>status := ''In Progress''\<rparr>, t1]\<rparr>) \<and>
   map title (docs (db0\<lparr>docs := [t0\<lparr>status := ''In Progress''\<rparr>, t1]\<rparr>))
     = map title (docs db0) \<and>
   map createdAt (docs (db0\<lparr>docs := [t0\<lparr>status := ''In Progress''\<rparr>, t1]\<rparr>))
     = map createdAt (docs db0)"
proof -
  have h1: "\<not> request_failed (Arrived (reply_of 200 None) :: errorData fetched)"
    by (simp add: request_failed_def ok_def reply_of_def)
  have h2: "updateTask (Castable 1) (status_body ''In Progress'') db0
     = (Response 200 (OneTask (t0\<lparr>status := ''In Progress''\<rparr>)),
        db0\<lparr>docs := [t0\<lparr>status := ''In Progress''\<rparr>, t1]\<rparr>)"
    by (simp add: updateTask_def findByIdAndUpdate_def cast_update_ok_def validate_update_def
          status_body_def statusEnum_def db0_def t0_def t1_def apply_update_def Let_def)
  have h3: "task_id ([t1, t0] ! 0) \<noteq> 1" "task_id ([t1, t0] ! 1) = 1"
    by (simp_all add: t0_def t1_def)
  from status_advance_frame [of 1 "''In Progress''" "[t1, t0]" "Arrived (reply_of 200 None)"
      "tasks app0" app0 db0 "t0\<lparr>status := ''In Progress''\<rparr>"
      "db0\<lparr>docs := [t0\<lparr>status := ''In Progress''\<rparr>, t1]\<rparr>"] h1 h2 h3
  show ?thesis by (simp add: app0_def optimistic_def)
qed

section \<open>Scheduling of the re-fetch\<close>

lemma delete_try_accepted:
  "delete_try res = Inr () \<longleftrightarrow>
   (case res of Rejected _ \<Rightarrow> False | Arrived r \<Rightarrow> http_status r = 204 \<or> http_status r = 404)"
  by (auto simp: delete_try_def split: fetched.splits sum.splits)

lemma delete_try_cases: "delete_try res = Inr () \<or> (\<exists>m. delete_try res = Inl m)"
  by (cases "delete_try res") auto

lemma fetchTasks_try_failed: "request_failed res \<Longrightarrow> \<exists>m. fetchTasks_try res = Inl m"
  by (auto simp: request_failed_def fetchTasks_try_def split: fetched.splits)

text \<open>
  A status update that succeeds leaves \<^verbatim>\<open>refreshTrigger\<close> and the filter as they were,
  and so does a create that fails: no re-fetch follows either of them.
\<close>

theorem update_success_without_refetch:
  "\<not> request_failed (Arrived (reply_of 200 None) :: errorData fetched) \<and>
   \<not> refetch_scheduled app0
       (App_updateTaskStatus (tasks app0) 1 ''In Progress'' (Arrived (reply_of 200 None)) app0) \<and>
   request_failed (Arrived (reply_of 400 (Some ''Failed to create task'')) :: errorData fetched) \<and>
   \<not> refetch_scheduled app0
       (App_createTask \<lparr> td_title = ''  '', td_description = ''x'', td_dueDate = None \<rparr>
          (Arrived (reply_of 400 (Some ''Failed to create task''))) app0)"
  by (simp add: request_failed_def ok_def reply_of_def refetch_scheduled_def
        App_updateTaskStatus_def App_createTask_def send_try_def showNotification_def
        or_else_def app0_def Let_def)

text \<open>
  C4, as the code has it. A re-fetch is scheduled after a create exactly when the request
  succeeded, after a status update exactly when the request failed (the rollback path),
  and after a delete exactly when the response arrived with status 204 or 404. None of
  the three operations changes the filter, from which the query of the re-fetch is built.
  A re-fetch whose response is ok and parses to a list replaces the whole local list by
  it; one whose request fails leaves the local list as it was.
\<close>

theorem refetch_schedule:
  "refetch_scheduled st (App_createTask td res st) = (\<not> request_failed res) \<and>
   refetch_scheduled st (App_updateTaskStatus snap i s res st) = request_failed res \<and>
   refetch_scheduled st (App_deleteTask i dres st) =
     (case dres of Rejected _ \<Rightarrow> False
      | Arrived r \<Rightarrow> http_status r = 204 \<or> http_status r = 404) \<and>
   filterStatus (App_createTask td res st) = filterStatus st \<and>
   filterStatus (App_updateTaskStatus snap i s res st) = filterStatus st \<and>
   filterStatus (App_deleteTask i dres st) = filterStatus st \<and>
   fetch_query st = (if filterStatus st = ''All'' then None else Some (filterStatus st)) \<and>
   (\<forall>r ts. ok r \<and> json r = Inr ts \<longrightarrow> tasks (App_fetchTasks (Arrived r) st) = ts) \<and>
   (request_failed fres \<longrightarrow> tasks (App_fetchTasks fres st) = tasks st)"
proof -
  have c: "refetch_scheduled st (App_createTask td res st) = (\<not> request_failed res)"
    using send_try_failed [of res "''Failed to create task.''"]
      send_try_ok [of res "''Failed to create task.''"]
    by (cases "request_failed res")
      (auto simp: refetch_scheduled_def App_createTask_def showNotification_def Let_def)
  have u: "refetch_scheduled st (App_updateTaskStatus snap i s res st) = request_failed res"
    using send_try_failed [of res "''Failed to update task status.''"]
      send_try_ok [of res "''Failed to update task status.''"]
    by (cases "request_failed res")
      (auto simp: refetch_scheduled_def App_updateTaskStatus_def showNotification_def Let_def)
  have d: "refetch_scheduled st (App_deleteTask i dres st) =
     (case dres of Rejected _ \<Rightarrow> False
      | Arrived r \<Rightarrow> http_status r = 204 \<or> http_status r = 404)"
    using delete_try_cases [of dres] delete_try_accepted [of dres]
    by (auto simp: refetch_scheduled_def App_deleteTask_def showNotification_def Let_def)
  have f1: "filterStatus (App_createTask td res st) = filterStatus st"
    by (simp add: App_createTask_def showNotification_def Let_def split: sum.splits)
  have f2: "filterStatus (App_updateTaskStatus snap i s res st) = filterStatus st"
    by (simp add: App_updateTaskStatus_def showNotification_def Let_def split: sum.splits)
  have f3: "filterStatus (App_deleteTask i dres st) = filterStatus st"
    by (simp add: App_deleteTask_def showNotification_def Let_def split: sum.splits)
  have q: "fetch_query st = (if filterStatus st = ''All'' then None else Some (filterStatus st))"
    by (simp add: fetch_query_def)
  have r1: "\<forall>r ts. ok r \<and> json r = Inr ts \<longrightarrow> tasks (App_fetchTasks (Arrived r) st) = ts"
    by (simp add: App_fetchTasks_def fetchTasks_try_def Let_def)
  have r2: "request_failed fres \<longrightarrow> tasks (App_fetchTasks fres st) = tasks st"
    using fetchTasks_try_failed [of fres]
    by (auto simp: App_fetchTasks_def Let_def)
  from c u d f1 f2 f3 q r1 r2 show ?thesis by blast
qed

theorem refetch_schedule_witness:
  "ok (reply_of 200 [t0]) \<and> json (reply_of 200 [t0]) = Inr [t0] \<and>
   tasks (App_fetchTasks (Arrived (reply_of 200 [t0])) app0) = [t0] \<and>
   request_failed (Rejected ''Failed to fetch'' :: task list fetched) \<and>
   tasks (App_fetchTasks (Rejected ''Failed to fetch'') app0) = tasks app0 \<and>
   refetch_scheduled app0
     (App_deleteTask 1 (Arrived (reply_of 204 ())) app0)"
proof -
  have h1: "ok (reply_of 200 [t0]) \<and> json (reply_of 200 [t0]) = Inr [t0]"
    by (simp add: ok_def reply_of_def)
  have h2: "request_failed (Rejected ''Failed to fetch'' :: task list fetched)"
    by (simp add: request_failed_def)
  from refetch_schedule [where st = app0 and i = 1 and dres = "Arrived (reply_of 204 ())"
      and fres = "Rejected ''Failed to fetch''"] h1 h2
  show ?thesis by (simp add: reply_of_def)
qed

section \<open>Deleting an id that is not in the store\<close>

lemma delete_first_absent:
  "distinct (map task_id ts) \<Longrightarrow> i \<notin> task_id ` set (delete_first i ts)"
  by (induction ts) auto

lemma find_absent: "i \<notin> task_id ` set ts \<Longrightarrow> find (\<lambda>t. task_id t = i) ts = None"
  by (auto simp: find_None_iff)

lemma find_present: "i \<in> task_id ` set ts \<Longrightarrow> \<exists>t. find (\<lambda>t. task_id t = i) ts = Some t"
  by (cases "find (\<lambda>t. task_id t = i) ts") (auto simp: find_None_iff)

text \<open>
  Deleting task 1 twice: the service answers the second request with 404, and the client
  ends in the very state a 204 gives, with no error and the message of a successful
  delete.
\<close>

theorem client_delete_404_as_success:
  "deleteTask (Castable 1) (snd (deleteTask (Castable 1) db0))
     = (Response 404 (Failure ''Task not found'' None), db0\<lparr>docs := [t1]\<rparr>) \<and>
   App_deleteTask 1 (Arrived (reply_of 404 ())) app0
     = App_deleteTask 1 (Arrived (reply_of 204 ())) app0 \<and>
   error (App_deleteTask 1 (Arrived (reply_of 404 ())) app0) = None \<and>
   notification (App_deleteTask 1 (Arrived (reply_of 404 ())) app0)
     = Some (''Task deleted successfully.'', ''error'')"
  by (simp add: deleteTask_def findByIdAndDelete_def db0_def t0_def t1_def
        App_deleteTask_def delete_try_def reply_of_def showNotification_def app0_def Let_def)

text \<open>
  C6, as the code has it. With the store reachable, deleting a well-formed id that no
  record has is answered with 404 and the message "Task not found", and the store is
  unchanged; deleting an id present (ids being unique) is answered with 204 and deleting it
  again with 404. The client treats a 404 answer to a delete as a success: it sets no
  error, schedules a re-fetch and shows "Task deleted successfully.".
\<close>

theorem delete_absent_id:
  "(fault s = None \<and> i \<notin> task_id ` set (docs s) \<longrightarrow>
      deleteTask (Castable i) s = (Response 404 (Failure ''Task not found'' None), s)) \<and>
   (fault s = None \<and> distinct (map task_id (docs s)) \<and> i \<in> task_id ` set (docs s) \<longrightarrow>
      fst (deleteTask (Castable i) s) = Response 204 NoContent \<and>
      deleteTask (Castable i) (snd (deleteTask (Castable i) s))
        = (Response 404 (Failure ''Task not found'' None), snd (deleteTask (Castable i) s))) \<and>
   (http_status r = 404 \<longrightarrow>
      App_deleteTask i (Arrived r) st
        = st\<lparr> loading := False, error := None, refreshTrigger := refreshTrigger st + 1,
              notification := Some (''Task deleted successfully.'', ''error'') \<rparr>)"
proof -
  have a: "deleteTask (Castable i) s = (Response 404 (Failure ''Task not found'' None), s)"
    if "fault s = None" "i \<notin> task_id ` set (docs s)" for s
    using that by (simp add: deleteTask_def findByIdAndDelete_def find_absent)
  have b: "fst (deleteTask (Castable i) s) = Response 204 NoContent \<and>
      deleteTask (Castable i) (snd (deleteTask (Castable i) s))
        = (Response 404 (Failure ''Task not found'' None), snd (deleteTask (Castable i) s))"
    if h: "fault s = None" "distinct (map task_id (docs s))" "i \<in> task_id ` set (docs s)"
  proof -
    from find_present [OF h(3)] obtain t where
      t: "find (\<lambda>t. task_id t = i) (docs s) = Some t" by blast
    have e: "deleteTask (Castable i) s
        = (Response 204 NoContent, s\<lparr>docs := delete_first i (docs s)\<rparr>)"
      using h(1) t by (simp add: deleteTask_def findByIdAndDelete_def)
    have "deleteTask (Castable i) (s\<lparr>docs := delete_first i (docs s)\<rparr>)
        = (Response 404 (Failure ''Task not found'' None), s\<lparr>docs := delete_first i (docs s)\<rparr>)"
      using h(1) delete_first_absent [OF h(2), of i] by (intro a) simp_all
    with e show ?thesis by simp
  qed
  have c: "App_deleteTask i (Arrived r) st
        = st\<lparr> loading := False, error := None, refreshTrigger := refreshTrigger st + 1,
              notification := Some (''Task deleted successfully.'', ''error'') \<rparr>"
    if "http_status r = 404"
    using that by (simp add: App_deleteTask_def delete_try_def showNotification_def Let_def)
  from a b c show ?thesis by blast
qed

theorem delete_absent_id_witness:
  "fault db0 = None \<and> 7 \<notin> task_id ` set (docs db0) \<and>
   deleteTask (Castable 7) db0 = (Response 404 (Failure ''Task not found'' None), db0) \<and>
   distinct (map task_id (docs db0)) \<and> 1 \<in> task_id ` set (docs db0) \<and>
   fst (deleteTask (Castable 1) db0) = Response 204 NoContent \<and>
   fst (deleteTask (Castable 1) (snd (deleteTask (Castable 1) db0)))
     = Response 404 (Failure ''Task not found'' None) \<and>
   http_status (reply_of 404 ()) = 404 \<and>
   error (App_deleteTask 1 (Arrived (reply_of 404 ())) app0) = None"
proof -
  have h1: "fault db0 = None \<and> 7 \<notin> task_id ` set (docs db0)"
    by (simp add: db0_def t0_def t1_def)
  have h2: "fault db0 = None \<and> distinct (map task_id (docs db0)) \<and> 1 \<in> task_id ` set (docs db0)"
    by (simp add: db0_def t0_def t1_def)
  have h3: "http_status (reply_of 404 ()) = 404"
    by (simp add: reply_of_def)
  from delete_absent_id [where s = db0 and i = 7 and r = "reply_of 404 ()" and st = app0]
       delete_absent_id [where s = db0 and i = 1 and r = "reply_of 404 ()" and st = app0]
       h1 h2 h3
  show ?thesis by simp
qed

section \<open>Listing with a status filter\<close>









text \<open>
  The query string is not escaped before it is made a pattern: a dot matches any
  character, so this filter returns a task whose status differs from it.
\<close>

lemma status_pattern_is_interpreted:
  "getAllTasks (Some ''Pendin.'') db0 = Some (Response 200 (Tasks [t0])) \<and>
   \<not> ci_equal (status t0) ''Pendin.''"
  by code_simp



section \<open>Creating a task\<close>

lemma trim_a: "trim ''a'' = ''a''"
  by (simp add: trim_def leading_def white_space_def)

lemma trim_Nil: "trim [] = []"
  by (simp add: trim_def leading_def white_space_def)

text \<open>
  A body that supplies \<^verbatim>\<open>status\<close> and \<^verbatim>\<open>createdAt\<close> creates a record with these
  values, not with \<^verbatim>\<open>Pending\<close> and the time of creation (99 here).
\<close>

theorem create_takes_supplied_status:
  "createTask b_done 99 7 db0
     = (Response 201 (OneTask \<lparr> task_id = 7, title = ''a'', description = ''b'',
                                status = ''Completed'', dueDate = None, createdAt = 5 \<rparr>),
        db0\<lparr>docs := [t0, t1, \<lparr> task_id = 7, title = ''a'', description = ''b'',
                                status = ''Completed'', dueDate = None, createdAt = 5 \<rparr>]\<rparr>)"
  by (simp add: createTask_def save_def new_Task_def validate_def required_string_def
        statusEnum_def date_ok_def b_done_def db0_def t0_def t1_def trim_a Let_def)

text \<open>The bodies that pass the validation of a new document.\<close>

lemma validate_new_empty:
  "validate (new_Task b now gen) = {} \<longleftrightarrow>
     (case b_title b of None \<Rightarrow> False | Some t \<Rightarrow> trim t \<noteq> []) \<and>
     (case b_description b of None \<Rightarrow> False | Some d \<Rightarrow> d \<noteq> []) \<and>
     (case b_status b of None \<Rightarrow> True | Some x \<Rightarrow> x \<in> set statusEnum) \<and>
     (case b_dueDate b of Some (Some d) \<Rightarrow> date_ok d | _ \<Rightarrow> True) \<and>
     (case b_createdAt b of None \<Rightarrow> date_ok now | Some c \<Rightarrow> date_ok c)"
  by (auto simp: validate_def new_Task_def required_string_def statusEnum_def
           split: option.splits if_splits)

lemma createTask_invalid:
  "validate (new_Task b now gen) \<noteq> {} \<Longrightarrow>
   createTask b now gen s =
     (Response 400 (Failure ''Failed to create task''
        (Some (ValidationError (validate (new_Task b now gen))))), s)"
  by (simp add: createTask_def save_def)

text \<open>
  A title that is one no-break space is empty after trimming, and a creation time beyond
  the range of \<^verbatim>\<open>Date\<close> does not cast: both bodies are answered with 400.
\<close>

lemma create_rejects_blank_title:
  "createTask (b_plain\<lparr>b_title := Some [CHR 0xC2, CHR 0xA0]\<rparr>) 99 7 db0
     = (Response 400 (Failure ''Failed to create task'' (Some (ValidationError {''title''}))),
        db0)"
  by (simp add: createTask_def save_def new_Task_def validate_def required_string_def
        statusEnum_def date_ok_def b_plain_def create_body_def trim_def leading_def
        white_space_def)

lemma create_rejects_date_out_of_range:
  "createTask (b_plain\<lparr>b_createdAt := Some 8640000000000001\<rparr>) 99 7 db0
     = (Response 400 (Failure ''Failed to create task'' (Some (ValidationError {''createdAt''}))),
        db0)"
  by (simp add: createTask_def save_def new_Task_def validate_def required_string_def
        statusEnum_def date_ok_def b_plain_def create_body_def trim_a)

text \<open>
  C3, as the code has it, for a body that reaches the handler. The body passes validation
  exactly when the title is present and not empty after \<^verbatim>\<open>String.prototype.trim\<close>, the
  description is present and not empty, a supplied status is one of the three values and
  a supplied due date and the creation time (supplied, or else that of the clock) are times
  that \<^verbatim>\<open>Date\<close> can hold; so a title or description that is the empty string fails. A body that fails is answered with 400 and
  the validation error, the store unchanged. A body that passes is, with the store
  reachable and the id not yet in use, answered with 201 and the new record, which is
  appended to the store: its title is the trimmed one, and its id, status and
  \<^verbatim>\<open>createdAt\<close> are the generated id, \<^verbatim>\<open>Pending\<close> and the time of creation where the
  body does not supply them, and the supplied values where it does.
\<close>

theorem createTask_result:
  "(b_title b = Some [] \<or> b_description b = Some [] \<longrightarrow>
      validate (new_Task b now gen) \<noteq> {}) \<and>
   (validate (new_Task b now gen) = {} \<longleftrightarrow>
      (case b_title b of None \<Rightarrow> False | Some t \<Rightarrow> trim t \<noteq> []) \<and>
      (case b_description b of None \<Rightarrow> False | Some d \<Rightarrow> d \<noteq> []) \<and>
      (case b_status b of None \<Rightarrow> True | Some x \<Rightarrow> x \<in> set statusEnum) \<and>
      (case b_dueDate b of Some (Some d) \<Rightarrow> date_ok d | _ \<Rightarrow> True) \<and>
      (case b_createdAt b of None \<Rightarrow> date_ok now | Some c \<Rightarrow> date_ok c)) \<and>
   (validate (new_Task b now gen) \<noteq> {} \<longrightarrow>
      createTask b now gen s =
        (Response 400 (Failure ''Failed to create task''
           (Some (ValidationError (validate (new_Task b now gen))))), s)) \<and>
   (validate (new_Task b now gen) = {} \<and> b_title b = Some t \<and> b_description b = Some d \<and>
    fault s = None \<and>
    (case b_id b of None \<Rightarrow> gen | Some j \<Rightarrow> j) \<notin> task_id ` set (docs s) \<longrightarrow>
      createTask b now gen s =
        (Response 201 (OneTask
           \<lparr> task_id = (case b_id b of None \<Rightarrow> gen | Some j \<Rightarrow> j),
             title = trim t, description = d,
             status = (case b_status b of None \<Rightarrow> ''Pending'' | Some x \<Rightarrow> x),
             dueDate = (case b_dueDate b of None \<Rightarrow> None | Some x \<Rightarrow> x),
             createdAt = (case b_createdAt b of None \<Rightarrow> now | Some c \<Rightarrow> c) \<rparr>),
         s\<lparr>docs := docs s @
           [\<lparr> task_id = (case b_id b of None \<Rightarrow> gen | Some j \<Rightarrow> j),
              title = trim t, description = d,
              status = (case b_status b of None \<Rightarrow> ''Pending'' | Some x \<Rightarrow> x),
              dueDate = (case b_dueDate b of None \<Rightarrow> None | Some x \<Rightarrow> x),
              createdAt = (case b_createdAt b of None \<Rightarrow> now | Some c \<Rightarrow> c) \<rparr>]\<rparr>))"
proof -
  have a: "b_title b = Some [] \<or> b_description b = Some [] \<longrightarrow>
      validate (new_Task b now gen) \<noteq> {}"
    by (auto simp: validate_new_empty trim_Nil)
  have c: "createTask b now gen s =
        (Response 201 (OneTask
           \<lparr> task_id = (case b_id b of None \<Rightarrow> gen | Some j \<Rightarrow> j),
             title = trim t, description = d,
             status = (case b_status b of None \<Rightarrow> ''Pending'' | Some x \<Rightarrow> x),
             dueDate = (case b_dueDate b of None \<Rightarrow> None | Some x \<Rightarrow> x),
             createdAt = (case b_createdAt b of None \<Rightarrow> now | Some c \<Rightarrow> c) \<rparr>),
         s\<lparr>docs := docs s @
           [\<lparr> task_id = (case b_id b of None \<Rightarrow> gen | Some j \<Rightarrow> j),
              title = trim t, description = d,
              status = (case b_status b of None \<Rightarrow> ''Pending'' | Some x \<Rightarrow> x),
              dueDate = (case b_dueDate b of None \<Rightarrow> None | Some x \<Rightarrow> x),
              createdAt = (case b_createdAt b of None \<Rightarrow> now | Some c \<Rightarrow> c) \<rparr>]\<rparr>)"
    if v: "validate (new_Task b now gen) = {}" and
      h: "b_title b = Some t" "b_description b = Some d" "fault s = None"
        "(case b_id b of None \<Rightarrow> gen | Some j \<Rightarrow> j) \<notin> task_id ` set (docs s)"
  proof -
    have n: "d_title (new_Task b now gen) = Some (trim t)"
      "d_description (new_Task b now gen) = Some d"
      "d_id (new_Task b now gen) = (case b_id b of None \<Rightarrow> gen | Some j \<Rightarrow> j)"
      "d_status (new_Task b now gen) = (case b_status b of None \<Rightarrow> ''Pending'' | Some x \<Rightarrow> x)"
      using h by (simp_all add: new_Task_def split: option.splits)
    have m: "d_dueDate (new_Task b now gen) = (case b_dueDate b of None \<Rightarrow> None | Some x \<Rightarrow> x)"
      "d_createdAt (new_Task b now gen) = (case b_createdAt b of None \<Rightarrow> now | Some c \<Rightarrow> c)"
      by (simp_all add: new_Task_def split: option.splits)
    show ?thesis
      using h(3,4) by (simp add: createTask_def save_def v n m Let_def)
  qed
  show ?thesis
  proof (intro conjI)
    show "b_title b = Some [] \<or> b_description b = Some [] \<longrightarrow>
      validate (new_Task b now gen) \<noteq> {}"
      by (rule a)
    show "validate (new_Task b now gen) = {} \<longleftrightarrow>
      (case b_title b of None \<Rightarrow> False | Some t \<Rightarrow> trim t \<noteq> []) \<and>
      (case b_description b of None \<Rightarrow> False | Some d \<Rightarrow> d \<noteq> []) \<and>
      (case b_status b of None \<Rightarrow> True | Some x \<Rightarrow> x \<in> set statusEnum) \<and>
      (case b_dueDate b of Some (Some d) \<Rightarrow> date_ok d | _ \<Rightarrow> True) \<and>
      (case b_createdAt b of None \<Rightarrow> date_ok now | Some c \<Rightarrow> date_ok c)"
      by (rule validate_new_empty)
    show "validate (new_Task b now gen) \<noteq> {} \<longrightarrow>
      createTask b now gen s =
        (Response 400 (Failure ''Failed to create task''
           (Some (ValidationError (validate (new_Task b now gen))))), s)"
      by (rule impI) (rule createTask_invalid)
    show "validate (new_Task b now gen) = {} \<and> b_title b = Some t \<and> b_description b = Some d \<and>
        fault s = None \<and>
        (case b_id b of None \<Rightarrow> gen | Some j \<Rightarrow> j) \<notin> task_id ` set (docs s) \<longrightarrow>
      createTask b now gen s =
        (Response 201 (OneTask
           \<lparr> task_id = (case b_id b of None \<Rightarrow> gen | Some j \<Rightarrow> j),
             title = trim t, description = d,
             status = (case b_status b of None \<Rightarrow> ''Pending'' | Some x \<Rightarrow> x),
             dueDate = (case b_dueDate b of None \<Rightarrow> None | Some x \<Rightarrow> x),
             createdAt = (case b_createdAt b of None \<Rightarrow> now | Some c \<Rightarrow> c) \<rparr>),
         s\<lparr>docs := docs s @
           [\<lparr> task_id = (case b_id b of None \<Rightarrow> gen | Some j \<Rightarrow> j),
              title = trim t, description = d,
              status = (case b_status b of None \<Rightarrow> ''Pending'' | Some x \<Rightarrow> x),
              dueDate = (case b_dueDate b of None \<Rightarrow> None | Some x \<Rightarrow> x),
              createdAt = (case b_createdAt b of None \<Rightarrow> now | Some c \<Rightarrow> c) \<rparr>]\<rparr>)"
      using c by (intro impI) (elim conjE)
  qed
qed

theorem createTask_result_witness:
  "b_title (b_plain\<lparr>b_title := Some []\<rparr>) = Some [] \<and>
   validate (new_Task (b_plain\<lparr>b_title := Some []\<rparr>) 99 7) \<noteq> {} \<and>
   createTask (b_plain\<lparr>b_title := Some []\<rparr>) 99 7 db0
     = (Response 400 (Failure ''Failed to create task''
          (Some (ValidationError (validate (new_Task (b_plain\<lparr>b_title := Some []\<rparr>) 99 7))))),
        db0) \<and>
   validate (new_Task b_plain 99 7) = {} \<and>
   b_title b_plain = Some ''a'' \<and> b_description b_plain = Some ''b'' \<and>
   b_status b_plain = None \<and> b_id b_plain = None \<and> b_createdAt b_plain = None \<and>
   fault db0 = None \<and> 7 \<notin> task_id ` set (docs db0) \<and>
   fst (createTask b_plain 99 7 db0)
     = Response 201 (OneTask \<lparr> task_id = 7, title = ''a'', description = ''b'',
                               status = ''Pending'', dueDate = None, createdAt = 99 \<rparr>)"
proof -
  have h1: "b_title (b_plain\<lparr>b_title := Some []\<rparr>) = Some []" by simp
  have h2: "b_title b_plain = Some ''a''" "b_description b_plain = Some ''b''"
      "b_status b_plain = None" "b_id b_plain = None" "b_createdAt b_plain = None"
      "b_dueDate b_plain = Some None"
    by (simp_all add: b_plain_def create_body_def)
  have h3: "fault db0 = None" "7 \<notin> task_id ` set (docs db0)"
    by (simp_all add: db0_def t0_def t1_def)
  note x = createTask_result [where b = "b_plain\<lparr>b_title := Some []\<rparr>" and now = 99
      and gen = 7 and s = db0]
  note y = createTask_result [where b = b_plain and now = 99 and gen = 7 and s = db0
      and t = "''a''" and d = "''b''"]
  have v1: "validate (new_Task (b_plain\<lparr>b_title := Some []\<rparr>) 99 7) \<noteq> {}"
    using x [THEN conjunct1] h1 by simp
  have r1: "createTask (b_plain\<lparr>b_title := Some []\<rparr>) 99 7 db0
     = (Response 400 (Failure ''Failed to create task''
          (Some (ValidationError (validate (new_Task (b_plain\<lparr>b_title := Some []\<rparr>) 99 7))))),
        db0)"
    using x [THEN conjunct2, THEN conjunct2, THEN conjunct1] v1 by (rule mp)
  have v2: "validate (new_Task b_plain 99 7) = {}"
    using h2 by (simp add: y [THEN conjunct2, THEN conjunct1] trim_a date_ok_def)
  have r2: "fst (createTask b_plain 99 7 db0)
     = Response 201 (OneTask \<lparr> task_id = 7, title = ''a'', description = ''b'',
                               status = ''Pending'', dueDate = None, createdAt = 99 \<rparr>)"
    using y [THEN conjunct2, THEN conjunct2, THEN conjunct2] v2 h2 h3 by (simp add: trim_a)
  show ?thesis
    using h1 h2(1-5) h3 v1 v2 r1 r2 by (intro conjI)
qed

section \<open>Updating a task\<close>


lemma apply_update_id: "task_id (apply_update b t) = task_id t"
  by (simp add: apply_update_def)




text \<open>The bodies that pass the update validators.\<close>

lemma validate_update_empty:
  "validate_update b = {} \<longleftrightarrow>
     (case b_title b of None \<Rightarrow> True | Some t \<Rightarrow> trim t \<noteq> []) \<and>
     (case b_description b of None \<Rightarrow> True | Some d \<Rightarrow> d \<noteq> []) \<and>
     (case b_status b of None \<Rightarrow> True | Some x \<Rightarrow> x \<in> set statusEnum)"
  by (auto simp: validate_update_def split: option.splits if_splits)








text \<open>
  A title that is one no-break space is empty after trimming, and a creation time beyond
  the range of \<^verbatim>\<open>Date\<close> does not cast: both updates are answered with 400.
\<close>

lemma update_rejects_blank_title:
  "updateTask (Castable 1) (b_created\<lparr>b_title := Some [CHR 0xC2, CHR 0xA0]\<rparr>) db0
     = (Response 400 (Failure ''Failed to update task'' (Some (ValidationError {''title''}))),
        db0)"
  by (simp add: updateTask_def findByIdAndUpdate_def cast_update_ok_def date_ok_def
        validate_update_def b_created_def trim_def leading_def white_space_def)

lemma update_rejects_date_out_of_range:
  "updateTask (Castable 1) (b_created\<lparr>b_createdAt := Some 8640000000000001\<rparr>) db0
     = (Response 400 (Failure ''Failed to update task'' (Some CastError)), db0)"
  by (simp add: updateTask_def findByIdAndUpdate_def cast_update_ok_def date_ok_def
        b_created_def)



section \<open>Errors thrown in the handlers\<close>

text \<open>
  The \<^verbatim>\<open>catch\<close> blocks: whatever is thrown in the \<^verbatim>\<open>try\<close> block is answered with the
  one status and message of the handler, the message of the error in the field
  \<^verbatim>\<open>error\<close>.
\<close>

lemma catch_createTask:
  "save (new_Task b now gen) s = Inl e \<Longrightarrow>
   createTask b now gen s = (Response 400 (Failure ''Failed to create task'' (Some e)), s)"
  by (simp add: createTask_def)

lemma catch_updateTask:
  "findByIdAndUpdate p b s = Inl e \<Longrightarrow>
   updateTask p b s = (Response 400 (Failure ''Failed to update task'' (Some e)), s)"
  by (simp add: updateTask_def)

lemma catch_getTaskById:
  "findById p s = Inl e \<Longrightarrow>
   getTaskById p s = Response 500 (Failure ''Failed to retrieve task'' (Some e))"
  by (simp add: getTaskById_def)

lemma catch_deleteTask:
  "findByIdAndDelete p s = Inl e \<Longrightarrow>
   deleteTask p s = (Response 500 (Failure ''Failed to delete task'' (Some e)), s)"
  by (simp add: deleteTask_def)

text \<open>
  In \<^verbatim>\<open>getAllTasks\<close> both the construction of the pattern and the query are inside the
  \<^verbatim>\<open>try\<close> block: an invalid pattern is answered with 500, and so is every query, with
  or without a filter, when the database fails.
\<close>

lemma catch_getAllTasks_pattern:
  "status_filter q = Some (Inl e) \<Longrightarrow>
   getAllTasks q s = Some (Response 500 (Failure ''Failed to fetch tasks'' (Some e)))"
  by (simp add: getAllTasks_def)

lemma catch_getAllTasks_query:
  "status_filter q = Some (Inr f) \<Longrightarrow> fault s = Some m \<Longrightarrow>
   getAllTasks q s =
     Some (Response 500 (Failure ''Failed to fetch tasks'' (Some (Unavailable m))))"
  by (simp add: getAllTasks_def find_sorted_def)

lemma getAllTasks_fault:
  "fault s = Some m \<Longrightarrow> getAllTasks q s = Some r \<Longrightarrow>
   \<exists>e. r = Response 500 (Failure ''Failed to fetch tasks'' (Some e))"
  by (auto simp: getAllTasks_def find_sorted_def split: option.splits sum.splits)

lemma getAllTasks_invalid_pattern:
  "getAllTasks (Some ''('') s
     = Some (Response 500 (Failure ''Failed to fetch tasks'' (Some SyntaxError)))"
  by (simp add: getAllTasks_def status_filter_def RegExp_i_def rx_source_def plain_char_def
        syntax_char_def)

lemma getAllTasks_ok:
  "getAllTasks q s = Some (Response 200 p) \<Longrightarrow>
   fault s = None \<and>
   (\<exists>f. status_filter q = Some (Inr f) \<and>
        p = Tasks (sort_createdAt_desc
              (filter (\<lambda>t. case f of None \<Rightarrow> True | Some rx \<Rightarrow> rx_match rx (status t))
                 (docs s))))"
  by (auto simp: getAllTasks_def find_sorted_def split: option.splits sum.splits)

text \<open>A lookup by a well-formed id that finds no record is answered with 404.\<close>

lemma getTaskById_absent:
  "fault s = None \<Longrightarrow> i \<notin> task_id ` set (docs s) \<Longrightarrow>
   getTaskById (Castable i) s = Response 404 (Failure ''Task not found'' None)"
  by (simp add: getTaskById_def findById_def find_absent)

text \<open>
  C9, at the input where the code departs from it. With the connection to the database
  lost, a create and an update whose bodies are valid are answered with 400, the status
  of a client-input failure, and not as a server-side failure; at the same store list
  (with and without a filter), get and delete are answered with 500.
\<close>

theorem store_failure_answered_400:
  "validate (new_Task b_plain 99 7) = {} \<and>
   createTask b_plain 99 7 db_down
     = (Response 400 (Failure ''Failed to create task'' (Some (Unavailable ''connection lost''))),
        db_down) \<and>
   cast_update_ok (status_body ''In Progress'') \<and>
   validate_update (status_body ''In Progress'') = {} \<and>
   updateTask (Castable 1) (status_body ''In Progress'') db_down
     = (Response 400 (Failure ''Failed to update task'' (Some (Unavailable ''connection lost''))),
        db_down) \<and>
   getAllTasks None db_down
     = Some (Response 500 (Failure ''Failed to fetch tasks''
         (Some (Unavailable ''connection lost'')))) \<and>
   getAllTasks (Some ''Pending'') db_down
     = Some (Response 500 (Failure ''Failed to fetch tasks''
         (Some (Unavailable ''connection lost'')))) \<and>
   getTaskById (Castable 1) db_down
     = Response 500 (Failure ''Failed to retrieve task'' (Some (Unavailable ''connection lost''))) \<and>
   deleteTask (Castable 1) db_down
     = (Response 500 (Failure ''Failed to delete task'' (Some (Unavailable ''connection lost''))),
        db_down)"
proof -
  have v: "validate (new_Task b_plain 99 7) = {}"
    by (simp add: validate_def new_Task_def required_string_def statusEnum_def date_ok_def
          b_plain_def create_body_def trim_a)
  have c: "createTask b_plain 99 7 db_down
     = (Response 400 (Failure ''Failed to create task'' (Some (Unavailable ''connection lost''))),
        db_down)"
    by (simp add: createTask_def save_def v)
      (simp add: new_Task_def b_plain_def create_body_def db_down_def)
  have u: "cast_update_ok (status_body ''In Progress'')"
      "validate_update (status_body ''In Progress'') = {}"
    by (simp_all add: cast_update_ok_def validate_update_def status_body_def statusEnum_def)
  have p: "updateTask (Castable 1) (status_body ''In Progress'') db_down
     = (Response 400 (Failure ''Failed to update task'' (Some (Unavailable ''connection lost''))),
        db_down)"
    by (simp add: updateTask_def findByIdAndUpdate_def u db_down_def)
  have f: "status_filter (Some ''Pending'') = Some (Inr (Some (map Lit ''Pending'')))"
    by (simp add: status_filter_def RegExp_i_def rx_source_def plain_char_def syntax_char_def)
  have m: "fault db_down = Some ''connection lost''"
    by (simp add: db_down_def)
  have l: "getAllTasks None db_down
     = Some (Response 500 (Failure ''Failed to fetch tasks''
         (Some (Unavailable ''connection lost''))))"
    "getAllTasks (Some ''Pending'') db_down
     = Some (Response 500 (Failure ''Failed to fetch tasks''
         (Some (Unavailable ''connection lost''))))"
    by (simp add: getAllTasks_def status_filter_def find_sorted_def m)
      (rule catch_getAllTasks_query [OF f m])
  have g: "getTaskById (Castable 1) db_down
     = Response 500 (Failure ''Failed to retrieve task'' (Some (Unavailable ''connection lost'')))"
    by (simp add: getTaskById_def findById_def db_down_def)
  have d: "deleteTask (Castable 1) db_down
     = (Response 500 (Failure ''Failed to delete task'' (Some (Unavailable ''connection lost''))),
        db_down)"
    by (simp add: deleteTask_def findByIdAndDelete_def db_down_def)
  show ?thesis
    using v c u p l g d by (intro conjI)
qed

section \<open>The invariants of the store\<close>

text \<open>
  The stored records have distinct ids, titles and descriptions that are not empty, and a
  status of the enumeration: every handler that writes keeps it so, whatever it answers.
\<close>

lemma update_first_ids:
  "task_id t' = i \<Longrightarrow> map task_id (update_first i t' ts) = map task_id ts"
  by (induction ts) auto

lemma update_first_all:
  "P t' \<Longrightarrow> list_all P ts \<Longrightarrow> list_all P (update_first i t' ts)"
  by (induction ts) auto

lemma delete_first_subset: "set (delete_first i ts) \<subseteq> set ts"
  by (induction ts) auto

lemma delete_first_distinct:
  "distinct (map task_id ts) \<Longrightarrow> distinct (map task_id (delete_first i ts))"
proof (induction ts)
  case Nil
  then show ?case by simp
next
  case (Cons a ts)
  then show ?case using delete_first_subset [of i ts] by auto
qed

lemma delete_first_all: "list_all P ts \<Longrightarrow> list_all P (delete_first i ts)"
  by (induction ts) auto

lemma find_in_set: "find P ts = Some t \<Longrightarrow> t \<in> set ts"
  by (induction ts) (auto split: if_splits)

lemma apply_update_valid:
  "validate_update b = {} \<Longrightarrow> valid_task t \<Longrightarrow> valid_task (apply_update b t)"
  by (auto simp: validate_update_empty valid_task_def apply_update_def split: option.splits)

lemma createTask_store_ok: "store_ok s \<Longrightarrow> store_ok (snd (createTask b now gen s))"
  by (auto simp: createTask_def save_def store_ok_def valid_task_def validate_def
        required_string_def Let_def
      split: sum.splits option.splits if_splits)

lemma updateTask_store_ok:
  assumes "store_ok s"
  shows "store_ok (snd (updateTask p b s))"
proof (cases "findByIdAndUpdate p b s")
  case (Inl e)
  with assms show ?thesis by (simp add: updateTask_def)
next
  case (Inr r)
  obtain ot s' where r: "r = (ot, s')" by (cases r)
  show ?thesis
  proof (cases ot)
    case None
    with Inr r have "s' = s"
      by (auto simp: findByIdAndUpdate_def Let_def
          split: param.splits option.splits if_splits)
    with Inr r None assms show ?thesis by (simp add: updateTask_def)
  next
    case (Some t')
    with Inr r obtain i t where
      v: "validate_update b = {}" and
      f: "find (\<lambda>x. task_id x = i) (docs s) = Some t" and
      t': "t' = apply_update b t" and
      s': "s' = s\<lparr>docs := update_first i t' (docs s)\<rparr>"
      by (auto simp: findByIdAndUpdate_def Let_def
          split: param.splits option.splits if_splits)
    have "valid_task t"
      using assms find_in_set [OF f] by (auto simp: store_ok_def list_all_iff)
    then have "valid_task t'"
      using v by (simp add: t' apply_update_valid)
    moreover have "task_id t' = i"
      using find_task_id [OF f] by (simp add: t' apply_update_id)
    ultimately have "store_ok s'"
      using assms by (simp add: s' store_ok_def update_first_ids update_first_all)
    with Inr r Some show ?thesis by (simp add: updateTask_def)
  qed
qed

lemma deleteTask_store_ok: "store_ok s \<Longrightarrow> store_ok (snd (deleteTask p s))"
  by (auto simp: deleteTask_def findByIdAndDelete_def store_ok_def delete_first_distinct
        delete_first_all
      split: sum.splits param.splits option.splits)


end
